theory Spec2Isabelle
  imports Main "HOL-Library.Char_ord" "HOL-Library.List_Lexorder" "HOL-Library.Log_Nat"
begin

section \<open>Strings and JSON values\<close>

text \<open>
  Strings are lists of characters, read as ASCII text. \<open>trim\<close> removes the ASCII members
  of the ECMAScript WhiteSpace and LineTerminator classes (TAB, LF, VT, FF, CR, SP) from
  both ends; \<open>toUpperCase\<close> and \<open>toLowerCase\<close> map the 26 ASCII letters and leave every
  other character as it is.
\<close>

definition isWhiteSpace :: "char \<Rightarrow> bool" where
  "isWhiteSpace c = (c \<in> set [CHR 0x09, CHR 0x0A, CHR 0x0B, CHR 0x0C, CHR 0x0D, CHR 0x20])"

definition trim :: "string \<Rightarrow> string" where
  "trim s = rev (dropWhile isWhiteSpace (rev (dropWhile isWhiteSpace s)))"

definition upperChar :: "char \<Rightarrow> char" where
  "upperChar c =
     (case map_of (zip ''abcdefghijklmnopqrstuvwxyz'' ''ABCDEFGHIJKLMNOPQRSTUVWXYZ'') c of
        None \<Rightarrow> c | Some u \<Rightarrow> u)"

definition lowerChar :: "char \<Rightarrow> char" where
  "lowerChar c =
     (case map_of (zip ''ABCDEFGHIJKLMNOPQRSTUVWXYZ'' ''abcdefghijklmnopqrstuvwxyz'') c of
        None \<Rightarrow> c | Some l \<Rightarrow> l)"

definition toUpperCase :: "string \<Rightarrow> string" where
  "toUpperCase s = map upperChar s"

definition toLowerCase :: "string \<Rightarrow> string" where
  "toLowerCase s = map lowerChar s"

text \<open>
  A value read from a parsed JSON body. Numbers, arrays and nested objects are not
  modelled; a request body is a JSON object, a map from property names to values, and a
  property that is missing reads as \<open>undefined\<close>, here \<open>None\<close>.
\<close>

datatype jsval = JNull | JBool bool | JStr string

type_synonym json_object = "string \<rightharpoonup> jsval"

text \<open>
  What \<open>await req.json()\<close> makes of the body of a request: the call throws when the text
  is not JSON, and returns null or an object otherwise. A JSON number, text, boolean or
  array has none of the properties the handlers read and behaves as the object without
  properties.
\<close>

datatype request_body = NotJson | JsonNull | JsonObject json_object

text \<open>Truthiness, as tested by \<open>v ? a : b\<close> and \<open>!v\<close>.\<close>

fun truthy :: "jsval \<Rightarrow> bool" where
  "truthy JNull = False"
| "truthy (JBool b) = b"
| "truthy (JStr s) = (s \<noteq> [])"

text \<open>The conversion \<open>String(v)\<close>.\<close>

fun String :: "jsval \<Rightarrow> string" where
  "String JNull = ''null''"
| "String (JBool b) = (if b then ''true'' else ''false'')"
| "String (JStr s) = s"

text \<open>The expression \<open>v ?? ""\<close> on a property that may be undefined or null.\<close>

fun orEmpty :: "jsval option \<Rightarrow> jsval" where
  "orEmpty None = JStr []"
| "orEmpty (Some JNull) = JStr []"
| "orEmpty (Some v) = v"

text \<open>The expression \<open>v ? String(v).trim() : null\<close> of the optional text fields.\<close>

definition trimOrNull :: "jsval \<Rightarrow> string option" where
  "trimOrNull v = (if truthy v then Some (trim (String v)) else None)"

text \<open>
  \<open>new Date(v)\<close>: the date is kept as the value it was constructed from. Which texts
  the engine parses to a valid date is its own choice beyond the ISO format, so the
  handlers that need it take the test as a parameter \<open>validDate\<close>.
\<close>

datatype jsdate = NewDate jsval

definition dateOrNull :: "jsval \<Rightarrow> jsdate option" where
  "dateOrNull v = (if truthy v then Some (NewDate v) else None)"

section \<open>The Job record\<close>

text \<open>
  The five stages, as the client's \<open>Status\<close> type lists them. The service's \<open>JobStatus\<close>
  enum is generated from the schema, which is not among the sources; its values are
  the same five names.
\<close>

datatype Status = SAVED | APPLIED | INTERVIEW | OFFER | REJECTED

fun statusName :: "Status \<Rightarrow> string" where
  "statusName SAVED = ''SAVED''"
| "statusName APPLIED = ''APPLIED''"
| "statusName INTERVIEW = ''INTERVIEW''"
| "statusName OFFER = ''OFFER''"
| "statusName REJECTED = ''REJECTED''"

text \<open>
  \<open>Object.values(JobStatus).includes(v) ? v : null\<close>: the enum value whose name is
  \<open>v\<close>, if there is one.
\<close>

definition statusOfName :: "string \<Rightarrow> Status option" where
  "statusOfName v =
     map_of [(''SAVED'', SAVED), (''APPLIED'', APPLIED), (''INTERVIEW'', INTERVIEW),
             (''OFFER'', OFFER), (''REJECTED'', REJECTED)] v"

text \<open>
  The record type is shared by the service, where \<open>nextActionAt\<close> is a date, and the
  client, where it is the text the service sent.
\<close>

record 'd Job =
  job_id :: string
  company :: string
  role :: string
  status :: Status
  location :: "string option"
  url :: "string option"
  salary :: "string option"
  notes' :: "string option"
  nextAction :: "string option"
  nextActionAt :: "'d option"
  createdAt :: nat
  updatedAt :: nat

type_synonym job = "jsdate Job"

section \<open>The record store\<close>

text \<open>
  Modelled from the spec: the schema of the Job table and the store client
  (\<open>prisma.job\<close>) are not among the sources. The table is a list of records keyed by
  \<open>job_id\<close>; the handlers receive the current time as \<open>now\<close>.
\<close>

type_synonym store = "job list"

text \<open>
  Modelled from the spec: the exceptions of the store client that the handlers' \<open>catch\<close>
  blocks receive. \<open>update\<close> and \<open>delete\<close> throw when no record has the given
  identifier; \<open>create\<close> throws when it is given a date that is not valid.
\<close>

datatype store_error = RecordNotFound | InvalidArgument

text \<open>The \<open>data\<close> object of an update: a field that was never assigned is \<open>None\<close>.\<close>

record update_data =
  d_company :: "string option"
  d_role :: "string option"
  d_status :: "Status option"
  d_location :: "string option option"
  d_url :: "string option option"
  d_salary :: "string option option"
  d_notes :: "string option option"
  d_nextAction :: "string option option"
  d_nextActionAt :: "jsdate option option"

definition orKeep :: "'a option \<Rightarrow> 'a \<Rightarrow> 'a" where
  "orKeep new old = (case new of None \<Rightarrow> old | Some v \<Rightarrow> v)"

text \<open>
  Modelled from the spec: an update changes the supplied fields only and refreshes
  \<open>updatedAt\<close>.
\<close>

definition applyData :: "update_data \<Rightarrow> nat \<Rightarrow> job \<Rightarrow> job" where
  "applyData d now j =
     j\<lparr>company := orKeep (d_company d) (company j),
       role := orKeep (d_role d) (role j),
       status := orKeep (d_status d) (status j),
       location := orKeep (d_location d) (location j),
       url := orKeep (d_url d) (url j),
       salary := orKeep (d_salary d) (salary j),
       notes' := orKeep (d_notes d) (notes' j),
       nextAction := orKeep (d_nextAction d) (nextAction j),
       nextActionAt := orKeep (d_nextActionAt d) (nextActionAt j),
       updatedAt := now\<rparr>"

definition findUnique :: "string \<Rightarrow> store \<Rightarrow> job option" where
  "findUnique i s = find (\<lambda>j. job_id j = i) s"

text \<open>
  Modelled from the spec: \<open>prisma.job.update\<close> and \<open>prisma.job.delete\<close>. Both fail when
  no record has the identifier, and return the record otherwise. Identifiers are unique
  in the table; on a list that holds an identifier twice, both act on every record of
  that identifier. The model checks the validity of a date on create only; its update
  stores the date it is given.
\<close>

definition prisma_job_update ::
  "string \<Rightarrow> update_data \<Rightarrow> nat \<Rightarrow> store \<Rightarrow> store_error + (job \<times> store)" where
  "prisma_job_update i d now s =
     (case findUnique i s of
        None \<Rightarrow> Inl RecordNotFound
      | Some j \<Rightarrow>
          Inr (applyData d now j, map (\<lambda>x. if job_id x = i then applyData d now x else x) s))"

definition prisma_job_delete :: "string \<Rightarrow> store \<Rightarrow> store_error + (job \<times> store)" where
  "prisma_job_delete i s =
     (case findUnique i s of
        None \<Rightarrow> Inl RecordNotFound
      | Some j \<Rightarrow> Inr (j, filter (\<lambda>x. job_id x \<noteq> i) s))"

text \<open>
  Modelled from the spec: \<open>prisma.job.create\<close> assigns a new identifier, one that no
  record of the table has, and sets \<open>createdAt\<close> and \<open>updatedAt\<close> to the current time.
  It throws, and writes nothing, when the date it is given is not valid.
\<close>

definition freshId :: "store \<Rightarrow> string" where
  "freshId s = replicate (Suc (fold max (map (\<lambda>j. length (job_id j)) s) 0)) CHR ''c''"

record create_data =
  c_company :: string
  c_role :: string
  c_status :: Status
  c_location :: "string option"
  c_url :: "string option"
  c_salary :: "string option"
  c_notes :: "string option"
  c_nextAction :: "string option"
  c_nextActionAt :: "jsdate option"

fun acceptsDate :: "(jsval \<Rightarrow> bool) \<Rightarrow> jsdate option \<Rightarrow> bool" where
  "acceptsDate validDate None = True"
| "acceptsDate validDate (Some (NewDate v)) = validDate v"

definition prisma_job_create ::
  "(jsval \<Rightarrow> bool) \<Rightarrow> create_data \<Rightarrow> nat \<Rightarrow> store \<Rightarrow> store_error + (job \<times> store)" where
  "prisma_job_create validDate d now s =
     (if \<not> acceptsDate validDate (c_nextActionAt d) then Inl InvalidArgument
      else
        let j = \<lparr>job_id = freshId s, company = c_company d, role = c_role d,
                   status = c_status d, location = c_location d, url = c_url d,
                   salary = c_salary d, notes' = c_notes d, nextAction = c_nextAction d,
                   nextActionAt = c_nextActionAt d, createdAt = now, updatedAt = now\<rparr>
        in Inr (j, s @ [j]))"

text \<open>
  Modelled from the spec: the filter \<open>{ contains: q, mode: "insensitive" }\<close> of the
  store client. The column is not null and holds \<open>q\<close> as a case-insensitive substring.
\<close>

fun containsStr :: "string \<Rightarrow> string \<Rightarrow> bool" where
  "containsStr q [] = (q = [])"
| "containsStr q (c # cs) = (take (length q) (c # cs) = q \<or> containsStr q cs)"

definition containsInsensitive :: "string \<Rightarrow> string \<Rightarrow> bool" where
  "containsInsensitive q s = containsStr (toLowerCase q) (toLowerCase s)"

datatype text_column = Company | Role | Notes | NextAction

datatype condition = Contains text_column string

fun columnText :: "text_column \<Rightarrow> job \<Rightarrow> string option" where
  "columnText Company j = Some (company j)"
| "columnText Role j = Some (role j)"
| "columnText Notes j = notes' j"
| "columnText NextAction j = nextAction j"

fun holds :: "condition \<Rightarrow> job \<Rightarrow> bool" where
  "holds (Contains col q) j =
     (case columnText col j of None \<Rightarrow> False | Some s \<Rightarrow> containsInsensitive q s)"

record where_clause =
  w_status :: "Status option"
  w_OR :: "condition list option"

definition matches :: "where_clause \<Rightarrow> job \<Rightarrow> bool" where
  "matches w j =
     ((case w_status w of None \<Rightarrow> True | Some st \<Rightarrow> status j = st) \<and>
      (case w_OR w of None \<Rightarrow> True | Some cs \<Rightarrow> list_ex (\<lambda>c. holds c j) cs))"

datatype sort_column = UpdatedAt | CreatedAt | CompanyName

datatype direction = Asc | Desc

text \<open>
  Modelled from the spec: \<open>prisma.job.findMany\<close> returns the records that match the
  \<open>where\<close> clause, ordered by the chosen column, ascending or descending. The order of
  records with equal keys is the store's choice; here they keep their table order when
  ascending and the reverse of it when descending. Texts are compared character by
  character.
\<close>

fun sortAsc :: "sort_column \<Rightarrow> job list \<Rightarrow> job list" where
  "sortAsc UpdatedAt js = sort_key updatedAt js"
| "sortAsc CreatedAt js = sort_key createdAt js"
| "sortAsc CompanyName js = sort_key company js"

fun orderJobs :: "sort_column \<times> direction \<Rightarrow> job list \<Rightarrow> job list" where
  "orderJobs (col, Asc) js = sortAsc col js"
| "orderJobs (col, Desc) js = rev (sortAsc col js)"

definition prisma_job_findMany ::
  "where_clause \<Rightarrow> sort_column \<times> direction \<Rightarrow> store \<Rightarrow> job list" where
  "prisma_job_findMany w ob s = orderJobs ob (filter (matches w) s)"

section \<open>HTTP responses\<close>

datatype response_body =
  JobsBody "job list" | JobBody job | OkBody | ErrorBody string

datatype response = Response (code: nat) (payload: response_body)

section \<open>The collection route: list and create\<close>

definition normalizeStatus :: "jsval option \<Rightarrow> Status option" where
  "normalizeStatus input =
     (let v = toUpperCase (trim (String (orEmpty input)))
      in if v = [] \<or> v = ''ALL'' then None else statusOfName v)"

definition normalizeSort :: "jsval option \<Rightarrow> string" where
  "normalizeSort input =
     (let v = trim (String (orEmpty input))
      in if v \<in> set [''updated_desc'', ''updated_asc'', ''created_desc'', ''created_asc'',
                       ''company_asc'', ''company_desc'']
         then v else ''updated_desc'')"

text \<open>\<open>url.searchParams.get(name)\<close>: the text of the parameter, or null when it is absent.\<close>

definition searchParam :: "string option \<Rightarrow> jsval option" where
  "searchParam p = (case p of None \<Rightarrow> Some JNull | Some s \<Rightarrow> Some (JStr s))"

definition orderByOf :: "string \<Rightarrow> sort_column \<times> direction" where
  "orderByOf sortKey =
     (if sortKey = ''updated_asc'' then (UpdatedAt, Asc)
      else if sortKey = ''created_desc'' then (CreatedAt, Desc)
      else if sortKey = ''created_asc'' then (CreatedAt, Asc)
      else if sortKey = ''company_asc'' then (CompanyName, Asc)
      else if sortKey = ''company_desc'' then (CompanyName, Desc)
      else (UpdatedAt, Desc))"

definition whereOf :: "Status option \<Rightarrow> string \<Rightarrow> where_clause" where
  "whereOf st q =
     \<lparr>w_status = st,
      w_OR = (if q \<noteq> [] then Some [Contains Company q, Contains Role q, Contains Notes q,
                                       Contains NextAction q]
              else None)\<rparr>"

text \<open>
  The handlers take the request and the store and return the response and the store
  after the request. \<open>GET\<close> takes the three query parameters, each absent or a text.
  \<open>POST\<close> takes what the body parsed to: reading a property of null throws, and that
  exception, the one of a body that is not JSON and the one of the store all end in the
  \<open>catch\<close> block. \<open>PATCH\<close> takes the body as the JSON object it parsed to.
\<close>

definition GET ::
  "string option \<Rightarrow> string option \<Rightarrow> string option \<Rightarrow> store \<Rightarrow> response \<times> store" where
  "GET qParam statusParam sortParam s =
     (let q = trim (case qParam of None \<Rightarrow> [] | Some t \<Rightarrow> t);
          st = normalizeStatus (searchParam statusParam);
          sortKey = normalizeSort (searchParam sortParam);
          jobs = prisma_job_findMany (whereOf st q) (orderByOf sortKey) s
      in (Response 200 (JobsBody jobs), s))"

definition POST ::
  "(jsval \<Rightarrow> bool) \<Rightarrow> nat \<Rightarrow> request_body \<Rightarrow> store \<Rightarrow> response \<times> store" where
  "POST validDate now req s =
     (case req of
        NotJson \<Rightarrow> (Response 500 (ErrorBody ''Failed to create job''), s)
      | JsonNull \<Rightarrow> (Response 500 (ErrorBody ''Failed to create job''), s)
      | JsonObject body \<Rightarrow>
          let company = trim (String (orEmpty (body ''company'')));
              role = trim (String (orEmpty (body ''role'')))
          in if company = [] \<or> role = []
             then (Response 400 (ErrorBody ''Company and role are required''), s)
             else
               let st = (case normalizeStatus (body ''status'') of
                           None \<Rightarrow> SAVED | Some v \<Rightarrow> v)
               in case prisma_job_create validDate
                    \<lparr>c_company = company, c_role = role, c_status = st,
                     c_location = Option.bind (body ''location'') trimOrNull,
                     c_url = Option.bind (body ''url'') trimOrNull,
                     c_salary = Option.bind (body ''salary'') trimOrNull,
                     c_notes = Option.bind (body ''notes'') trimOrNull,
                     c_nextAction = Option.bind (body ''nextAction'') trimOrNull,
                     c_nextActionAt = Option.bind (body ''nextActionAt'') dateOrNull\<rparr>
                    now s of
                    Inl e \<Rightarrow> (Response 500 (ErrorBody ''Failed to create job''), s)
                  | Inr (job, s') \<Rightarrow> (Response 201 (JobBody job), s'))"

section \<open>The item route: update and delete\<close>

definition normalizeStatus_item :: "jsval option \<Rightarrow> Status option" where
  "normalizeStatus_item input =
     (let v = toUpperCase (trim (String (orEmpty input))) in statusOfName v)"

text \<open>The \<open>data\<close> object that \<open>PATCH\<close> builds from the request body.\<close>

definition PATCH_data :: "json_object \<Rightarrow> update_data" where
  "PATCH_data body =
     \<lparr>d_company = map_option (\<lambda>v. trim (String (orEmpty (Some v)))) (body ''company''),
      d_role = map_option (\<lambda>v. trim (String (orEmpty (Some v)))) (body ''role''),
      d_status = Option.bind (body ''status'') (\<lambda>v. normalizeStatus_item (Some v)),
      d_location = map_option trimOrNull (body ''location''),
      d_url = map_option trimOrNull (body ''url''),
      d_salary = map_option trimOrNull (body ''salary''),
      d_notes = map_option trimOrNull (body ''notes''),
      d_nextAction = map_option trimOrNull (body ''nextAction''),
      d_nextActionAt = map_option dateOrNull (body ''nextActionAt'')\<rparr>"

definition PATCH :: "nat \<Rightarrow> string \<Rightarrow> json_object \<Rightarrow> store \<Rightarrow> response \<times> store" where
  "PATCH now i body s =
     (if i = [] then (Response 400 (ErrorBody ''Missing job id''), s)
      else
        let d = PATCH_data body
        in if d_company d = Some [] then (Response 400 (ErrorBody ''Company cannot be empty''), s)
           else if d_role d = Some [] then (Response 400 (ErrorBody ''Role cannot be empty''), s)
           else
             (case prisma_job_update i d now s of
                Inl e \<Rightarrow> (Response 500 (ErrorBody ''Failed to update job''), s)
              | Inr (job, s') \<Rightarrow> (Response 200 (JobBody job), s')))"

definition DELETE :: "string \<Rightarrow> store \<Rightarrow> response \<times> store" where
  "DELETE i s =
     (if i = [] then (Response 400 (ErrorBody ''Missing job id''), s)
      else
        (case prisma_job_delete i s of
           Inl e \<Rightarrow> (Response 500 (ErrorBody ''Failed to delete job''), s)
         | Inr (job, s') \<Rightarrow> (Response 200 OkBody, s')))"

section \<open>The client state controller: optimistic stage move\<close>

datatype ToastKind = Success | Danger | Warning | Info

record ToastMsg =
  toast_id :: string
  kind :: ToastKind
  title :: string
  message :: string

text \<open>
  The part of the page state that \<open>moveJob\<close> reads and writes: the job list and the
  notifications. The identifier of a notification comes from a random source and is a
  parameter here; the timer that dismisses a notification later is not modelled.
\<close>

record client =
  jobs :: "string Job list"
  toasts :: "ToastMsg list"

definition pushToast :: "string \<Rightarrow> ToastKind \<Rightarrow> string \<Rightarrow> string \<Rightarrow> client \<Rightarrow> client" where
  "pushToast tid k t m c =
     c\<lparr>toasts := take 4 (\<lparr>toast_id = tid, kind = k, title = t, message = m\<rparr> # toasts c)\<rparr>"

text \<open>
  What \<open>await fetch(...)\<close> ends in: the call throws when the request is rejected
  without a response, and returns a response with its success flag \<open>res.ok\<close>
  otherwise.
\<close>

datatype fetch_result = NoResponse | Responded bool

text \<open>
  \<open>moveJob\<close> runs in two parts around the request. The first part, up to the
  \<open>await\<close>, takes the snapshot \<open>prev\<close> and rewrites the list; the second part runs
  when the response is there, on whatever the state is by then, with \<open>ok\<close> the
  response's success flag. When the \<open>await\<close> throws, nothing catches the exception
  and the second part does not run.
\<close>

definition moveJob_request :: "string \<Rightarrow> Status \<Rightarrow> client \<Rightarrow> string Job list \<times> client" where
  "moveJob_request i newStatus c =
     (jobs c,
      c\<lparr>jobs := map (\<lambda>j. if job_id j = i then j\<lparr>status := newStatus\<rparr> else j) (jobs c)\<rparr>)"

definition moveJob_response ::
  "string Job list \<Rightarrow> Status \<Rightarrow> bool \<Rightarrow> string \<Rightarrow> client \<Rightarrow> client" where
  "moveJob_response prev newStatus ok tid c =
     (if \<not> ok
      then pushToast tid Danger ''Failed'' ''Could not move job. Please try again.''
             (c\<lparr>jobs := prev\<rparr>)
      else pushToast tid Success ''Updated'' (''Moved to '' @ statusName newStatus @ ''.'') c)"

text \<open>
  The whole move when nothing else happens in between: the state shown while the request
  is pending, and the state after the response.
\<close>

definition moveJob ::
  "string \<Rightarrow> Status \<Rightarrow> fetch_result \<Rightarrow> string \<Rightarrow> client \<Rightarrow> client \<times> client" where
  "moveJob i newStatus res tid c =
     (let (prev, pending) = moveJob_request i newStatus c
      in (pending,
          case res of
            NoResponse \<Rightarrow> pending
          | Responded ok \<Rightarrow> moveJob_response prev newStatus ok tid pending))"

section \<open>The client state controller: derived statistics\<close>

text \<open>
  Numbers are binary64 values, modelled as the rationals they denote. A count is a whole
  number below \<open>2^53\<close> and is held exactly. The result of a division or a
  multiplication is the binary64 number nearest to the exact result, with a tie going to
  the even significand. Overflow and subnormal numbers are not modelled: a list has
  fewer than \<open>2^32\<close> elements, so a quotient of two counts that is not zero, and its
  product with 100, lie between \<open>2^-32\<close> and \<open>2^39\<close>.
\<close>










section \<open>Derived notions and example data\<close>

text \<open>The jobs in the body of a list response.\<close>

definition listedJobs ::
  "string option \<Rightarrow> string option \<Rightarrow> string option \<Rightarrow> store \<Rightarrow> job list" where
  "listedJobs qp stp srtp s =
     (case payload (fst (GET qp stp srtp s)) of JobsBody js \<Rightarrow> js | _ \<Rightarrow> [])"

text \<open>The invariant of the data model: no record has an empty company or role.\<close>

definition requiredFieldsOk :: "store \<Rightarrow> bool" where
  "requiredFieldsOk s = list_all (\<lambda>j. company j \<noteq> [] \<and> role j \<noteq> []) s"

text \<open>\<open>t\<close> contains \<open>q\<close> as a substring, letter case ignored.\<close>

abbreviation ciSub :: "string \<Rightarrow> string \<Rightarrow> bool" where
  "ciSub q t \<equiv> \<exists>xs ys. toLowerCase t = xs @ toLowerCase q @ ys"

text \<open>The record that a create request builds, when it passes validation.\<close>

definition created :: "nat \<Rightarrow> json_object \<Rightarrow> store \<Rightarrow> job" where
  "created now body s =
     \<lparr>job_id = freshId s,
      company = trim (String (orEmpty (body ''company''))),
      role = trim (String (orEmpty (body ''role''))),
      status = (case normalizeStatus (body ''status'') of None \<Rightarrow> SAVED | Some v \<Rightarrow> v),
      location = Option.bind (body ''location'') trimOrNull,
      url = Option.bind (body ''url'') trimOrNull,
      salary = Option.bind (body ''salary'') trimOrNull,
      notes' = Option.bind (body ''notes'') trimOrNull,
      nextAction = Option.bind (body ''nextAction'') trimOrNull,
      nextActionAt = Option.bind (body ''nextActionAt'') dateOrNull,
      createdAt = now, updatedAt = now\<rparr>"

definition exJob :: job where
  "exJob = \<lparr>job_id = ''j1'', company = ''Acme'', role = ''Engineer'', status = SAVED,
     location = Some ''Berlin'', url = None, salary = None, notes' = None, nextAction = None,
     nextActionAt = None, createdAt = 1, updatedAt = 1\<rparr>"

definition statusBody :: "string \<Rightarrow> json_object" where
  "statusBody v = [''status'' \<mapsto> JStr v]"

definition exPatch :: json_object where
  "exPatch = [''location'' \<mapsto> JNull, ''notes'' \<mapsto> JStr ''  call back  '']"

definition exPatched :: job where
  "exPatched = \<lparr>job_id = ''j1'', company = ''Acme'', role = ''Engineer'', status = SAVED,
     location = None, url = None, salary = None, notes' = Some ''call back'',
     nextAction = None, nextActionAt = None, createdAt = 1, updatedAt = 9\<rparr>"

definition exCreate :: json_object where
  "exCreate = [''company'' \<mapsto> JStr '' Acme '', ''role'' \<mapsto> JStr ''Engineer'',
               ''status'' \<mapsto> JStr ''bogus'']"


text \<open>An engine that takes one ISO text for a date and no other value.\<close>

definition exValidDate :: "jsval \<Rightarrow> bool" where
  "exValidDate v = (v = JStr ''2026-03-01T09:00:00.000Z'')"

definition exNoCompany :: json_object where
  "exNoCompany = [''company'' \<mapsto> JStr ''   '']"






section \<open>Shared lemmas\<close>

lemmas eval_defs = trim_def isWhiteSpace_def toUpperCase_def upperChar_def toLowerCase_def
  lowerChar_def normalizeStatus_def normalizeStatus_item_def statusOfName_def normalizeSort_def

lemma orKeep_simps: "orKeep None old = old" "orKeep (Some v) old = v"
  by (simp_all add: orKeep_def)

lemma findUnique_None_iff: "findUnique i s = None \<longleftrightarrow> i \<notin> job_id ` set s"
  by (auto simp: findUnique_def find_None_iff)

lemma findUnique_after_delete: "findUnique i (filter (\<lambda>x. job_id x \<noteq> i) s) = None"
  by (auto simp: findUnique_None_iff)

lemma PATCH_cases:
  "PATCH now i body s =
     (if i = [] then (Response 400 (ErrorBody ''Missing job id''), s)
      else if d_company (PATCH_data body) = Some []
        then (Response 400 (ErrorBody ''Company cannot be empty''), s)
      else if d_role (PATCH_data body) = Some []
        then (Response 400 (ErrorBody ''Role cannot be empty''), s)
      else case findUnique i s of
          None \<Rightarrow> (Response 500 (ErrorBody ''Failed to update job''), s)
        | Some j \<Rightarrow> (Response 200 (JobBody (applyData (PATCH_data body) now j)),
             map (\<lambda>x. if job_id x = i then applyData (PATCH_data body) now x else x) s))"
  by (simp add: PATCH_def prisma_job_update_def Let_def split: option.splits)

lemma DELETE_cases:
  "DELETE i s =
     (if i = [] then (Response 400 (ErrorBody ''Missing job id''), s)
      else case findUnique i s of
          None \<Rightarrow> (Response 500 (ErrorBody ''Failed to delete job''), s)
        | Some j \<Rightarrow> (Response 200 OkBody, filter (\<lambda>x. job_id x \<noteq> i) s))"
  by (simp add: DELETE_def prisma_job_delete_def split: option.splits)


lemma statusOfName_eq_Some_iff: "statusOfName v = Some st \<longleftrightarrow> v = statusName st"
  by (cases st) (auto simp: statusOfName_def split: if_splits)

lemma statusName_not_all: "statusName st \<noteq> [] \<and> statusName st \<noteq> ''ALL''"
  by (cases st) simp_all

lemma GET_listedJobs: "GET qp stp srtp s = (Response 200 (JobsBody (listedJobs qp stp srtp s)), s)"
  by (simp add: listedJobs_def GET_def)

lemma listedJobs_eq:
  "listedJobs qp stp srtp s =
     orderJobs (orderByOf (normalizeSort (searchParam srtp)))
       (filter (matches (whereOf (normalizeStatus (searchParam stp))
                  (trim (case qp of None \<Rightarrow> [] | Some t \<Rightarrow> t)))) s)"
  by (simp add: listedJobs_def GET_def prisma_job_findMany_def)

section \<open>Unknown identifiers on update and delete\<close>

text \<open>
  C1, as the spec states it: an update or delete whose id is not in the store fails with
  NotFoundError, a 404-class response, and so does a second delete of a record. The
  handlers have no such class. On the one-record store \<open>[exJob]\<close>, deleting or updating
  the unknown id \<open>zz\<close> answers 500, and so does the second delete of \<open>j1\<close>.
\<close>

theorem unknown_id_not_404_counterexample:
  "findUnique ''zz'' [exJob] = None \<and>
   code (fst (DELETE ''zz'' [exJob])) = 500 \<and>
   code (fst (PATCH 5 ''zz'' (statusBody ''APPLIED'') [exJob])) = 500 \<and>
   code (fst (DELETE ''j1'' [exJob])) = 200 \<and>
   code (fst (DELETE ''j1'' (snd (DELETE ''j1'' [exJob])))) = 500"
  by (simp add: DELETE_def PATCH_def PATCH_data_def prisma_job_delete_def prisma_job_update_def
        findUnique_def exJob_def statusBody_def eval_defs)

text \<open>
  C1, amended: for a non-empty id that is not in the store, delete answers with the generic
  500-class failure and leaves the store as it is; update leaves the store as it is and
  answers with the generic 500-class failure when the supplied company and role pass
  validation, and with 400 when one of them trims to empty. After a successful delete, a
  second delete of the same id answers with the generic 500-class failure.
\<close>

theorem unknown_id_is_generic_failure:
  assumes "i \<noteq> []"
  shows "(findUnique i s = None \<longrightarrow>
            DELETE i s = (Response 500 (ErrorBody ''Failed to delete job''), s) \<and>
            snd (PATCH now i body s) = s \<and>
            (d_company (PATCH_data body) \<noteq> Some [] \<and> d_role (PATCH_data body) \<noteq> Some [] \<longrightarrow>
               fst (PATCH now i body s) = Response 500 (ErrorBody ''Failed to update job'')) \<and>
            (d_company (PATCH_data body) = Some [] \<or> d_role (PATCH_data body) = Some [] \<longrightarrow>
               code (fst (PATCH now i body s)) = 400)) \<and>
         (fst (DELETE i s) = Response 200 OkBody \<longrightarrow>
            DELETE i (snd (DELETE i s)) =
              (Response 500 (ErrorBody ''Failed to delete job''), snd (DELETE i s)))"
  using assms
  by (auto simp: DELETE_cases PATCH_cases findUnique_after_delete split: option.splits)

theorem unknown_id_is_generic_failure_witness:
  "DELETE ''zz'' [exJob] = (Response 500 (ErrorBody ''Failed to delete job''), [exJob]) \<and>
   PATCH 5 ''zz'' (statusBody ''APPLIED'') [exJob] =
     (Response 500 (ErrorBody ''Failed to update job''), [exJob]) \<and>
   DELETE ''j1'' (snd (DELETE ''j1'' [exJob])) =
     (Response 500 (ErrorBody ''Failed to delete job''), snd (DELETE ''j1'' [exJob]))"
proof -
  have ne: "''zz'' \<noteq> []" "''j1'' \<noteq> []" by simp_all
  have a: "findUnique ''zz'' [exJob] = None"
    by (simp add: findUnique_def exJob_def)
  have b: "d_company (PATCH_data (statusBody ''APPLIED'')) \<noteq> Some [] \<and>
           d_role (PATCH_data (statusBody ''APPLIED'')) \<noteq> Some []"
    by (simp add: PATCH_data_def statusBody_def)
  have c: "fst (DELETE ''j1'' [exJob]) = Response 200 OkBody"
    by (simp add: DELETE_def prisma_job_delete_def findUnique_def exJob_def)
  from unknown_id_is_generic_failure [OF ne(1), of "[exJob]" 5 "statusBody ''APPLIED''"] a b
  have 1: "DELETE ''zz'' [exJob] = (Response 500 (ErrorBody ''Failed to delete job''), [exJob])"
    and 2: "fst (PATCH 5 ''zz'' (statusBody ''APPLIED'') [exJob]) =
              Response 500 (ErrorBody ''Failed to update job'')"
    and 3: "snd (PATCH 5 ''zz'' (statusBody ''APPLIED'') [exJob]) = [exJob]"
    by blast+
  from unknown_id_is_generic_failure [OF ne(2), of "[exJob]" 5 "statusBody ''APPLIED''"] c
  have 4: "DELETE ''j1'' (snd (DELETE ''j1'' [exJob])) =
     (Response 500 (ErrorBody ''Failed to delete job''), snd (DELETE ''j1'' [exJob]))"
    by blast
  from 1 2 3 4 show ?thesis by (simp add: prod_eq_iff)
qed

section \<open>Partial update\<close>

lemma findUnique_map_update:
  assumes "findUnique i s = Some j" and "\<And>x. job_id (f x) = job_id x"
  shows "findUnique i (map (\<lambda>x. if job_id x = i then f x else x) s) = Some (f j)"
  using assms(1) unfolding findUnique_def
  by (induction s) (auto simp: assms(2))

lemma job_id_applyData: "job_id (applyData d now x) = job_id x"
  by (simp add: applyData_def)

lemma PATCH_success:
  assumes "findUnique i s = Some j" and "fst (PATCH now i body s) = Response 200 (JobBody j')"
  shows "j' = applyData (PATCH_data body) now j"
    and "snd (PATCH now i body s) =
           map (\<lambda>x. if job_id x = i then applyData (PATCH_data body) now x else x) s"
  using assms by (auto simp: PATCH_cases split: if_splits)

lemma patched_company:
  "company (applyData (PATCH_data body) now j) =
     (case body ''company'' of None \<Rightarrow> company j | Some v \<Rightarrow> trim (String (orEmpty (Some v))))"
  by (cases "body ''company''") (simp_all add: applyData_def PATCH_data_def orKeep_simps)

lemma patched_role:
  "role (applyData (PATCH_data body) now j) =
     (case body ''role'' of None \<Rightarrow> role j | Some v \<Rightarrow> trim (String (orEmpty (Some v))))"
  by (cases "body ''role''") (simp_all add: applyData_def PATCH_data_def orKeep_simps)

lemma patched_status:
  "status (applyData (PATCH_data body) now j) =
     (case body ''status'' of None \<Rightarrow> status j
      | Some v \<Rightarrow> orKeep (normalizeStatus_item (Some v)) (status j))"
  by (cases "body ''status''") (simp_all add: applyData_def PATCH_data_def orKeep_simps)

lemma patched_location:
  "location (applyData (PATCH_data body) now j) =
     (case body ''location'' of None \<Rightarrow> location j | Some v \<Rightarrow> trimOrNull v)"
  by (cases "body ''location''") (simp_all add: applyData_def PATCH_data_def orKeep_simps)

lemma patched_url:
  "url (applyData (PATCH_data body) now j) =
     (case body ''url'' of None \<Rightarrow> url j | Some v \<Rightarrow> trimOrNull v)"
  by (cases "body ''url''") (simp_all add: applyData_def PATCH_data_def orKeep_simps)

lemma patched_salary:
  "salary (applyData (PATCH_data body) now j) =
     (case body ''salary'' of None \<Rightarrow> salary j | Some v \<Rightarrow> trimOrNull v)"
  by (cases "body ''salary''") (simp_all add: applyData_def PATCH_data_def orKeep_simps)

lemma patched_notes:
  "notes' (applyData (PATCH_data body) now j) =
     (case body ''notes'' of None \<Rightarrow> notes' j | Some v \<Rightarrow> trimOrNull v)"
  by (cases "body ''notes''") (simp_all add: applyData_def PATCH_data_def orKeep_simps)

lemma patched_nextAction:
  "nextAction (applyData (PATCH_data body) now j) =
     (case body ''nextAction'' of None \<Rightarrow> nextAction j | Some v \<Rightarrow> trimOrNull v)"
  by (cases "body ''nextAction''") (simp_all add: applyData_def PATCH_data_def orKeep_simps)

lemma patched_nextActionAt:
  "nextActionAt (applyData (PATCH_data body) now j) =
     (case body ''nextActionAt'' of None \<Rightarrow> nextActionAt j | Some v \<Rightarrow> dateOrNull v)"
  by (cases "body ''nextActionAt''") (simp_all add: applyData_def PATCH_data_def orKeep_simps)

lemmas patched = patched_company patched_role patched_status patched_location patched_url
  patched_salary patched_notes patched_nextAction patched_nextActionAt

text \<open>
  C2: an update of an existing record that succeeds returns and stores a record in which
  every field of the payload that the request omits is unchanged (and so are the
  identifier and the creation time, while \<open>updatedAt\<close>, which no payload carries, is
  refreshed), every optional field (location, url, salary, notes, nextAction,
  nextActionAt) supplied as null or as the empty text is cleared, and every supplied text
  is stored trimmed of surrounding whitespace.
\<close>

theorem update_changes_supplied_fields_only:
  assumes "findUnique i s = Some j"
    and "fst (PATCH now i body s) = Response 200 (JobBody j')"
  shows "findUnique i (snd (PATCH now i body s)) = Some j' \<and>
         job_id j' = job_id j \<and> createdAt j' = createdAt j \<and> updatedAt j' = now \<and>
         (body ''company'' = None \<longrightarrow> company j' = company j) \<and>
         (body ''role'' = None \<longrightarrow> role j' = role j) \<and>
         (body ''status'' = None \<longrightarrow> status j' = status j) \<and>
         (body ''location'' = None \<longrightarrow> location j' = location j) \<and>
         (body ''url'' = None \<longrightarrow> url j' = url j) \<and>
         (body ''salary'' = None \<longrightarrow> salary j' = salary j) \<and>
         (body ''notes'' = None \<longrightarrow> notes' j' = notes' j) \<and>
         (body ''nextAction'' = None \<longrightarrow> nextAction j' = nextAction j) \<and>
         (body ''nextActionAt'' = None \<longrightarrow> nextActionAt j' = nextActionAt j) \<and>
         (body ''location'' \<in> {Some JNull, Some (JStr [])} \<longrightarrow> location j' = None) \<and>
         (body ''url'' \<in> {Some JNull, Some (JStr [])} \<longrightarrow> url j' = None) \<and>
         (body ''salary'' \<in> {Some JNull, Some (JStr [])} \<longrightarrow> salary j' = None) \<and>
         (body ''notes'' \<in> {Some JNull, Some (JStr [])} \<longrightarrow> notes' j' = None) \<and>
         (body ''nextAction'' \<in> {Some JNull, Some (JStr [])} \<longrightarrow> nextAction j' = None) \<and>
         (body ''nextActionAt'' \<in> {Some JNull, Some (JStr [])} \<longrightarrow> nextActionAt j' = None) \<and>
         (\<forall>t. body ''company'' = Some (JStr t) \<longrightarrow> company j' = trim t) \<and>
         (\<forall>t. body ''role'' = Some (JStr t) \<longrightarrow> role j' = trim t) \<and>
         (\<forall>t. t \<noteq> [] \<and> body ''location'' = Some (JStr t) \<longrightarrow> location j' = Some (trim t)) \<and>
         (\<forall>t. t \<noteq> [] \<and> body ''url'' = Some (JStr t) \<longrightarrow> url j' = Some (trim t)) \<and>
         (\<forall>t. t \<noteq> [] \<and> body ''salary'' = Some (JStr t) \<longrightarrow> salary j' = Some (trim t)) \<and>
         (\<forall>t. t \<noteq> [] \<and> body ''notes'' = Some (JStr t) \<longrightarrow> notes' j' = Some (trim t)) \<and>
         (\<forall>t. t \<noteq> [] \<and> body ''nextAction'' = Some (JStr t) \<longrightarrow>
              nextAction j' = Some (trim t))"
proof -
  note j' = PATCH_success(1) [OF assms]
  have stored: "findUnique i (snd (PATCH now i body s)) = Some j'"
    unfolding PATCH_success(2) [OF assms] j'
    by (rule findUnique_map_update [OF assms(1)]) (rule job_id_applyData)
  have fixed: "job_id j' = job_id j" "createdAt j' = createdAt j" "updatedAt j' = now"
    by (simp_all add: j' applyData_def)
  have omitted:
    "body ''company'' = None \<longrightarrow> company j' = company j"
    "body ''role'' = None \<longrightarrow> role j' = role j"
    "body ''status'' = None \<longrightarrow> status j' = status j"
    "body ''location'' = None \<longrightarrow> location j' = location j"
    "body ''url'' = None \<longrightarrow> url j' = url j"
    "body ''salary'' = None \<longrightarrow> salary j' = salary j"
    "body ''notes'' = None \<longrightarrow> notes' j' = notes' j"
    "body ''nextAction'' = None \<longrightarrow> nextAction j' = nextAction j"
    "body ''nextActionAt'' = None \<longrightarrow> nextActionAt j' = nextActionAt j"
    unfolding j' by (simp_all add: patched)
  have cleared:
    "body ''location'' \<in> {Some JNull, Some (JStr [])} \<longrightarrow> location j' = None"
    "body ''url'' \<in> {Some JNull, Some (JStr [])} \<longrightarrow> url j' = None"
    "body ''salary'' \<in> {Some JNull, Some (JStr [])} \<longrightarrow> salary j' = None"
    "body ''notes'' \<in> {Some JNull, Some (JStr [])} \<longrightarrow> notes' j' = None"
    "body ''nextAction'' \<in> {Some JNull, Some (JStr [])} \<longrightarrow> nextAction j' = None"
    "body ''nextActionAt'' \<in> {Some JNull, Some (JStr [])} \<longrightarrow> nextActionAt j' = None"
    unfolding j' by (auto simp: patched trimOrNull_def dateOrNull_def)
  have trimmed:
    "\<forall>t. body ''company'' = Some (JStr t) \<longrightarrow> company j' = trim t"
    "\<forall>t. body ''role'' = Some (JStr t) \<longrightarrow> role j' = trim t"
    "\<forall>t. t \<noteq> [] \<and> body ''location'' = Some (JStr t) \<longrightarrow> location j' = Some (trim t)"
    "\<forall>t. t \<noteq> [] \<and> body ''url'' = Some (JStr t) \<longrightarrow> url j' = Some (trim t)"
    "\<forall>t. t \<noteq> [] \<and> body ''salary'' = Some (JStr t) \<longrightarrow> salary j' = Some (trim t)"
    "\<forall>t. t \<noteq> [] \<and> body ''notes'' = Some (JStr t) \<longrightarrow> notes' j' = Some (trim t)"
    "\<forall>t. t \<noteq> [] \<and> body ''nextAction'' = Some (JStr t) \<longrightarrow> nextAction j' = Some (trim t)"
    unfolding j' by (simp_all add: patched trimOrNull_def)
  show ?thesis
    by (intro conjI) (fact stored fixed omitted cleared trimmed)+
qed

theorem update_changes_supplied_fields_only_witness:
  "findUnique ''j1'' [exJob] = Some exJob \<and>
   fst (PATCH 9 ''j1'' exPatch [exJob]) = Response 200 (JobBody exPatched) \<and>
   findUnique ''j1'' (snd (PATCH 9 ''j1'' exPatch [exJob])) = Some exPatched \<and>
   company exPatched = company exJob \<and> status exPatched = status exJob \<and>
   location exJob = Some ''Berlin'' \<and> location exPatched = None \<and>
   notes' exPatched = Some (trim ''  call back  '')"
proof -
  have h1: "findUnique ''j1'' [exJob] = Some exJob"
    by (simp add: findUnique_def exJob_def)
  have h2: "fst (PATCH 9 ''j1'' exPatch [exJob]) = Response 200 (JobBody exPatched)"
    by (simp add: PATCH_cases PATCH_data_def applyData_def orKeep_simps findUnique_def
          exJob_def exPatch_def exPatched_def trimOrNull_def trim_def isWhiteSpace_def)
  note t = update_changes_supplied_fields_only [OF h1 h2]
  have b: "exPatch ''company'' = None" "exPatch ''status'' = None"
    "exPatch ''location'' \<in> {Some JNull, Some (JStr [])}"
    "''  call back  '' \<noteq> [] \<and> exPatch ''notes'' = Some (JStr ''  call back  '')"
    by (simp_all add: exPatch_def)
  from t have 1: "findUnique ''j1'' (snd (PATCH 9 ''j1'' exPatch [exJob])) = Some exPatched"
    by (rule conjunct1)
  from t have "exPatch ''company'' = None \<longrightarrow> company exPatched = company exJob"
    by (elim conjE)
  with b(1) have 2: "company exPatched = company exJob" by (rule rev_mp)
  from t have "exPatch ''status'' = None \<longrightarrow> status exPatched = status exJob"
    by (elim conjE)
  with b(2) have 3: "status exPatched = status exJob" by (rule rev_mp)
  from t have "exPatch ''location'' \<in> {Some JNull, Some (JStr [])} \<longrightarrow> location exPatched = None"
    by (elim conjE)
  with b(3) have 4: "location exPatched = None" by (rule rev_mp)
  from t have "\<forall>t. t \<noteq> [] \<and> exPatch ''notes'' = Some (JStr t) \<longrightarrow> notes' exPatched = Some (trim t)"
    by (elim conjE)
  then have "''  call back  '' \<noteq> [] \<and> exPatch ''notes'' = Some (JStr ''  call back  '') \<longrightarrow>
     notes' exPatched = Some (trim ''  call back  '')"
    by (rule spec)
  with b(4) have 5: "notes' exPatched = Some (trim ''  call back  '')" by (rule rev_mp)
  have 6: "location exJob = Some ''Berlin''" by (simp add: exJob_def)
  show ?thesis
    by (intro conjI) (fact h1 h2 1 2 3 4 5 6)+
qed

section \<open>List: matching\<close>

lemma take_prefix_iff: "take (length q) t = q \<longleftrightarrow> (\<exists>ys. t = q @ ys)"
proof
  assume "take (length q) t = q"
  then have "t = q @ drop (length q) t"
    by (metis append_take_drop_id)
  then show "\<exists>ys. t = q @ ys" ..
next
  assume "\<exists>ys. t = q @ ys"
  then show "take (length q) t = q" by auto
qed

lemma containsStr_iff: "containsStr q t \<longleftrightarrow> (\<exists>xs ys. t = xs @ q @ ys)"
proof (induction t)
  case Nil
  show ?case by simp
next
  case (Cons c cs)
  have "(\<exists>xs ys. c # cs = xs @ q @ ys) \<longleftrightarrow>
        (\<exists>ys. c # cs = q @ ys) \<or> (\<exists>xs ys. cs = xs @ q @ ys)"
  proof
    assume "\<exists>xs ys. c # cs = xs @ q @ ys"
    then obtain xs ys where e: "c # cs = xs @ q @ ys" by blast
    show "(\<exists>ys. c # cs = q @ ys) \<or> (\<exists>xs ys. cs = xs @ q @ ys)"
    proof (cases xs)
      case Nil
      with e show ?thesis by auto
    next
      case (Cons x xs')
      with e have "cs = xs' @ q @ ys" by simp
      then show ?thesis by blast
    qed
  next
    assume "(\<exists>ys. c # cs = q @ ys) \<or> (\<exists>xs ys. cs = xs @ q @ ys)"
    then show "\<exists>xs ys. c # cs = xs @ q @ ys"
    proof
      assume "\<exists>ys. c # cs = q @ ys"
      then obtain ys where "c # cs = [] @ q @ ys" by auto
      then show ?thesis by blast
    next
      assume "\<exists>xs ys. cs = xs @ q @ ys"
      then obtain xs ys where "c # cs = (c # xs) @ q @ ys" by auto
      then show ?thesis by blast
    qed
  qed
  then show ?case
    using Cons.IH by (simp add: take_prefix_iff del: take_Suc_Cons)
qed

lemma containsInsensitive_iff: "containsInsensitive q t \<longleftrightarrow> ciSub q t"
  by (simp add: containsInsensitive_def containsStr_iff)

lemma containsStr_Nil: "containsStr [] t"
  by (cases t) simp_all

lemma containsInsensitive_empty: "containsInsensitive [] t"
  by (simp add: containsInsensitive_def toLowerCase_def containsStr_Nil)

lemma set_orderJobs: "set (orderJobs ob js) = set js"
proof (cases ob)
  case (Pair col dir)
  then show ?thesis by (cases col; cases dir) simp_all
qed

lemma matches_whereOf:
  "matches (whereOf st q) j \<longleftrightarrow>
     (containsInsensitive q (company j) \<or> containsInsensitive q (role j) \<or>
      (\<exists>n. notes' j = Some n \<and> containsInsensitive q n) \<or>
      (\<exists>n. nextAction j = Some n \<and> containsInsensitive q n)) \<and>
     (case st of None \<Rightarrow> True | Some x \<Rightarrow> status j = x)"
proof (cases "q = []")
  case True
  then show ?thesis
    by (auto simp: matches_def whereOf_def containsInsensitive_empty)
next
  case False
  then show ?thesis
    by (cases "notes' j"; cases "nextAction j") (auto simp: matches_def whereOf_def)
qed

lemma normalizeStatus_param_iff:
  "normalizeStatus (searchParam stp) = Some st \<longleftrightarrow>
     (\<exists>u. stp = Some u \<and> toUpperCase (trim u) = statusName st)"
proof (cases stp)
  case None
  then show ?thesis
    by (simp add: searchParam_def normalizeStatus_def trim_def toUpperCase_def)
next
  case (Some u)
  then show ?thesis
    using statusName_not_all [of st]
    by (auto simp: searchParam_def normalizeStatus_def Let_def statusOfName_eq_Some_iff)
qed

lemma statusName_inject: "statusName a = statusName b \<Longrightarrow> a = b"
  by (metis statusOfName_eq_Some_iff option.inject)

lemma status_restriction:
  "(case normalizeStatus (searchParam stp) of None \<Rightarrow> True | Some x \<Rightarrow> status j = x) \<longleftrightarrow>
   (\<forall>u st. stp = Some u \<and> toUpperCase (trim u) = statusName st \<longrightarrow> status j = st)"
proof (cases "normalizeStatus (searchParam stp)")
  case None
  then have "\<not> (\<exists>u. stp = Some u \<and> toUpperCase (trim u) = statusName st)" for st
    using normalizeStatus_param_iff [of stp st] by simp
  with None show ?thesis by auto
next
  case (Some x)
  then obtain u where u: "stp = Some u" "toUpperCase (trim u) = statusName x"
    using normalizeStatus_param_iff [of stp x] by blast
  with Some show ?thesis by (auto dest: statusName_inject)
qed

text \<open>
  C3, as the spec states it: when \<open>q\<close> is present, a record is listed if and only if one
  of its company, role, notes and nextAction contains \<open>q\<close>, letter case ignored. The
  handler trims \<open>q\<close> first: with \<open>q\<close> the text \<open>acme\<close> after a space, the record
  \<open>exJob\<close> of company Acme is listed, and none of its four fields contains that \<open>q\<close>.
\<close>

theorem list_untrimmed_query_counterexample:
  "exJob \<in> set (listedJobs (Some '' acme'') None None [exJob]) \<and>
   \<not> containsInsensitive '' acme'' (company exJob) \<and>
   \<not> containsInsensitive '' acme'' (role exJob) \<and>
   notes' exJob = None \<and> nextAction exJob = None"
  by (simp add: listedJobs_def GET_def searchParam_def prisma_job_findMany_def whereOf_def
        orderByOf_def matches_def containsInsensitive_def exJob_def eval_defs)

text \<open>
  C3, amended: every list request answers 200 with a list of jobs and leaves the store as
  it is. A record is in that list if and only if it is in the store, and, when \<open>q\<close> is
  present, its company, role, notes or nextAction contains \<open>q\<close> trimmed of surrounding
  whitespace as a substring, letter case ignored, and, when the status parameter is
  present and its trimmed upper-casing is the name of an enum value, its status is that
  value.
\<close>

theorem list_matches_trimmed_query:
  "GET qp stp srtp s = (Response 200 (JobsBody (listedJobs qp stp srtp s)), s) \<and>
   (j \<in> set (listedJobs qp stp srtp s) \<longleftrightarrow>
      j \<in> set s \<and>
      (\<forall>t. qp = Some t \<longrightarrow>
         ciSub (trim t) (company j) \<or> ciSub (trim t) (role j) \<or>
         (\<exists>n. notes' j = Some n \<and> ciSub (trim t) n) \<or>
         (\<exists>n. nextAction j = Some n \<and> ciSub (trim t) n)) \<and>
      (\<forall>u st. stp = Some u \<and> toUpperCase (trim u) = statusName st \<longrightarrow> status j = st))"
proof (intro conjI)
  show "GET qp stp srtp s = (Response 200 (JobsBody (listedJobs qp stp srtp s)), s)"
    by (rule GET_listedJobs)
  have m: "j \<in> set (listedJobs qp stp srtp s) \<longleftrightarrow>
      j \<in> set s \<and>
      matches (whereOf (normalizeStatus (searchParam stp))
                  (trim (case qp of None \<Rightarrow> [] | Some t \<Rightarrow> t))) j"
    by (simp add: listedJobs_eq set_orderJobs)
  show "j \<in> set (listedJobs qp stp srtp s) \<longleftrightarrow>
      j \<in> set s \<and>
      (\<forall>t. qp = Some t \<longrightarrow>
         ciSub (trim t) (company j) \<or> ciSub (trim t) (role j) \<or>
         (\<exists>n. notes' j = Some n \<and> ciSub (trim t) n) \<or>
         (\<exists>n. nextAction j = Some n \<and> ciSub (trim t) n)) \<and>
      (\<forall>u st. stp = Some u \<and> toUpperCase (trim u) = statusName st \<longrightarrow> status j = st)"
  proof (cases qp)
    case None
    have "trim [] = []" by (simp add: trim_def)
    with None show ?thesis
      unfolding m matches_whereOf status_restriction
      by (simp add: containsInsensitive_empty)
  next
    case (Some t)
    then show ?thesis
      unfolding m matches_whereOf status_restriction
      by (simp add: containsInsensitive_iff)
  qed
qed

theorem list_matches_trimmed_query_witness:
  "GET (Some '' acme'') (Some ''saved'') None [exJob] =
     (Response 200 (JobsBody (listedJobs (Some '' acme'') (Some ''saved'') None [exJob])),
      [exJob]) \<and>
   exJob \<in> set (listedJobs (Some '' acme'') (Some ''saved'') None [exJob]) \<and>
   exJob \<notin> set (listedJobs (Some '' acme'') (Some ''applied'') None [exJob])"
proof -
  note t = list_matches_trimmed_query
    [of "Some '' acme''" "Some ''saved''" None "[exJob]" exJob]
  note t' = list_matches_trimmed_query
    [of "Some '' acme''" "Some ''applied''" None "[exJob]" exJob]
  have q: "trim '' acme'' = ''acme''"
    by (simp add: trim_def isWhiteSpace_def)
  have "containsInsensitive ''acme'' (company exJob)"
    by (simp add: containsInsensitive_def exJob_def toLowerCase_def lowerChar_def)
  then have c: "ciSub ''acme'' (company exJob)"
    by (simp only: containsInsensitive_iff)
  have u: "toUpperCase (trim ''saved'') = statusName SAVED"
    "toUpperCase (trim ''applied'') = statusName APPLIED"
    by (simp_all add: eval_defs)
  have st: "status exJob = SAVED" by (simp add: exJob_def)
  have a: "\<forall>u st. Some ''saved'' = Some u \<and> toUpperCase (trim u) = statusName st \<longrightarrow>
             status exJob = st"
  proof (intro allI impI)
    fix v st'
    assume "Some ''saved'' = Some v \<and> toUpperCase (trim v) = statusName st'"
    then have "toUpperCase (trim ''saved'') = statusName st'" by simp
    then have "statusName SAVED = statusName st'" by (simp only: u(1))
    then have "SAVED = st'" by (rule statusName_inject)
    with st show "status exJob = st'" by simp
  qed
  have b: "\<not> (\<forall>u st. Some ''applied'' = Some u \<and> toUpperCase (trim u) = statusName st \<longrightarrow>
             status exJob = st)"
  proof
    assume "\<forall>u st. Some ''applied'' = Some u \<and> toUpperCase (trim u) = statusName st \<longrightarrow>
             status exJob = st"
    then have "Some ''applied'' = Some ''applied'' \<and>
        toUpperCase (trim ''applied'') = statusName APPLIED \<longrightarrow> status exJob = APPLIED"
      by blast
    with u(2) have "status exJob = APPLIED" by simp
    with st show False by simp
  qed
  have 1: "exJob \<in> set (listedJobs (Some '' acme'') (Some ''saved'') None [exJob])"
    using t [THEN conjunct2] a c by (simp add: q)
  have 2: "exJob \<notin> set (listedJobs (Some '' acme'') (Some ''applied'') None [exJob])"
    using t' [THEN conjunct2] b by (simp add: q)
  from t [THEN conjunct1] 1 2 show ?thesis by (intro conjI)
qed

section \<open>Create\<close>

lemma POST_not_object:
  "POST vd now NotJson s = (Response 500 (ErrorBody ''Failed to create job''), s)"
  "POST vd now JsonNull s = (Response 500 (ErrorBody ''Failed to create job''), s)"
  by (simp_all add: POST_def)

lemma POST_reject:
  "trim (String (orEmpty (body ''company''))) = [] \<or> trim (String (orEmpty (body ''role''))) = []
   \<Longrightarrow> POST vd now (JsonObject body) s =
         (Response 400 (ErrorBody ''Company and role are required''), s)"
  by (simp add: POST_def Let_def)

lemma nextActionAt_created:
  "acceptsDate vd (Option.bind (body ''nextActionAt'') dateOrNull) \<longleftrightarrow>
     (case body ''nextActionAt'' of None \<Rightarrow> True | Some v \<Rightarrow> \<not> truthy v \<or> vd v)"
  by (cases "body ''nextActionAt''") (simp_all add: dateOrNull_def)

lemma POST_accept:
  "trim (String (orEmpty (body ''company''))) \<noteq> [] \<Longrightarrow>
   trim (String (orEmpty (body ''role''))) \<noteq> [] \<Longrightarrow>
   (case body ''nextActionAt'' of None \<Rightarrow> True | Some v \<Rightarrow> \<not> truthy v \<or> vd v) \<Longrightarrow>
   POST vd now (JsonObject body) s =
     (Response 201 (JobBody (created now body s)), s @ [created now body s])"
  by (simp add: POST_def prisma_job_create_def created_def Let_def nextActionAt_created)

lemma POST_store_throws:
  "trim (String (orEmpty (body ''company''))) \<noteq> [] \<Longrightarrow>
   trim (String (orEmpty (body ''role''))) \<noteq> [] \<Longrightarrow>
   \<not> (case body ''nextActionAt'' of None \<Rightarrow> True | Some v \<Rightarrow> \<not> truthy v \<or> vd v) \<Longrightarrow>
   POST vd now (JsonObject body) s = (Response 500 (ErrorBody ''Failed to create job''), s)"
  by (simp add: POST_def prisma_job_create_def Let_def nextActionAt_created)



lemma created_fields:
  "company (created now body s) = trim (String (orEmpty (body ''company'')))"
  "role (created now body s) = trim (String (orEmpty (body ''role'')))"
  "status (created now body s) =
     (case normalizeStatus (body ''status'') of None \<Rightarrow> SAVED | Some v \<Rightarrow> v)"
  by (simp_all add: created_def)




section \<open>Required fields stay non-empty\<close>

lemma requiredFieldsOk_applyData:
  "d_company d \<noteq> Some [] \<Longrightarrow> d_role d \<noteq> Some [] \<Longrightarrow> company j \<noteq> [] \<and> role j \<noteq> [] \<Longrightarrow>
   company (applyData d now j) \<noteq> [] \<and> role (applyData d now j) \<noteq> []"
  by (cases "d_company d"; cases "d_role d") (simp_all add: applyData_def orKeep_simps)

lemma PATCH_data_company:
  "d_company (PATCH_data body) = map_option (\<lambda>v. trim (String (orEmpty (Some v)))) (body ''company'')"
  "d_role (PATCH_data body) = map_option (\<lambda>v. trim (String (orEmpty (Some v)))) (body ''role'')"
  by (simp_all add: PATCH_data_def)

lemma requiredFieldsOk_POST_object:
  assumes "requiredFieldsOk s"
  shows "requiredFieldsOk (snd (POST vd now (JsonObject body) s))"
proof (cases "trim (String (orEmpty (body ''company''))) = [] \<or>
              trim (String (orEmpty (body ''role''))) = []")
  case True
  with assms show ?thesis by (simp add: POST_reject)
next
  case False
  show ?thesis
  proof (cases "case body ''nextActionAt'' of None \<Rightarrow> True | Some v \<Rightarrow> \<not> truthy v \<or> vd v")
    case True
    with False assms show ?thesis
      by (simp add: POST_accept requiredFieldsOk_def created_fields)
  next
    case no: False
    with False assms show ?thesis
      by (simp add: POST_store_throws)
  qed
qed

lemma requiredFieldsOk_POST:
  "requiredFieldsOk s \<Longrightarrow> requiredFieldsOk (snd (POST vd now req s))"
  by (cases req) (simp_all add: POST_not_object requiredFieldsOk_POST_object)

lemma requiredFieldsOk_map:
  assumes "requiredFieldsOk s"
    and "\<And>x. company x \<noteq> [] \<and> role x \<noteq> [] \<Longrightarrow> company (f x) \<noteq> [] \<and> role (f x) \<noteq> []"
  shows "requiredFieldsOk (map (\<lambda>x. if job_id x = i then f x else x) s)"
  using assms(1) unfolding requiredFieldsOk_def
  by (induction s) (simp_all add: assms(2))

lemma requiredFieldsOk_PATCH:
  assumes "requiredFieldsOk s"
  shows "requiredFieldsOk (snd (PATCH now i body s))"
proof (cases "i \<noteq> [] \<and> d_company (PATCH_data body) \<noteq> Some [] \<and>
              d_role (PATCH_data body) \<noteq> Some [] \<and> findUnique i s \<noteq> None")
  case True
  then have "snd (PATCH now i body s) =
      map (\<lambda>x. if job_id x = i then applyData (PATCH_data body) now x else x) s"
    by (auto simp: PATCH_cases)
  moreover have "requiredFieldsOk
      (map (\<lambda>x. if job_id x = i then applyData (PATCH_data body) now x else x) s)"
    using assms
  proof (rule requiredFieldsOk_map)
    fix x :: job
    assume "company x \<noteq> [] \<and> role x \<noteq> []"
    with True show "company (applyData (PATCH_data body) now x) \<noteq> [] \<and>
        role (applyData (PATCH_data body) now x) \<noteq> []"
      by (intro requiredFieldsOk_applyData) simp_all
  qed
  ultimately show ?thesis by simp
next
  case False
  then have "snd (PATCH now i body s) = s"
    by (auto simp: PATCH_cases)
  with assms show ?thesis by simp
qed

text \<open>
  C6: if no record of the store has an empty company or role, then none has after a
  create or an update, whatever the request and whatever its body parsed to. Create
  answers 400 and writes nothing when the company or the role trims to empty, and update
  answers 400 and writes nothing when a supplied company or role trims to empty.
\<close>

theorem company_and_role_stay_nonempty:
  assumes "requiredFieldsOk s"
  shows "requiredFieldsOk (snd (POST vd now req s)) \<and>
         requiredFieldsOk (snd (PATCH now i body s)) \<and>
         (trim (String (orEmpty (body ''company''))) = [] \<or>
          trim (String (orEmpty (body ''role''))) = [] \<longrightarrow>
            POST vd now (JsonObject body) s =
              (Response 400 (ErrorBody ''Company and role are required''), s)) \<and>
         ((\<exists>v. body ''company'' = Some v \<and> trim (String (orEmpty (Some v))) = []) \<or>
          (\<exists>v. body ''role'' = Some v \<and> trim (String (orEmpty (Some v))) = []) \<longrightarrow>
            code (fst (PATCH now i body s)) = 400 \<and> snd (PATCH now i body s) = s)"
proof (intro conjI impI)
  show "requiredFieldsOk (snd (POST vd now req s))"
    using assms by (rule requiredFieldsOk_POST)
  show "requiredFieldsOk (snd (PATCH now i body s))"
    using assms by (rule requiredFieldsOk_PATCH)
next
  assume "trim (String (orEmpty (body ''company''))) = [] \<or>
          trim (String (orEmpty (body ''role''))) = []"
  then show "POST vd now (JsonObject body) s =
      (Response 400 (ErrorBody ''Company and role are required''), s)"
    by (rule POST_reject)
next
  assume "(\<exists>v. body ''company'' = Some v \<and> trim (String (orEmpty (Some v))) = []) \<or>
          (\<exists>v. body ''role'' = Some v \<and> trim (String (orEmpty (Some v))) = [])"
  then have e: "d_company (PATCH_data body) = Some [] \<or> d_role (PATCH_data body) = Some []"
    by (auto simp: PATCH_data_company)
  then show "code (fst (PATCH now i body s)) = 400"
    by (auto simp: PATCH_cases)
  from e show "snd (PATCH now i body s) = s"
    by (auto simp: PATCH_cases)
qed

theorem company_and_role_stay_nonempty_witness:
  "requiredFieldsOk [exJob] \<and>
   requiredFieldsOk (snd (POST exValidDate 9 (JsonObject exCreate) [exJob])) \<and>
   requiredFieldsOk (snd (PATCH 9 ''j1'' exPatch [exJob])) \<and>
   POST exValidDate 9 (JsonObject exNoCompany) [exJob] =
     (Response 400 (ErrorBody ''Company and role are required''), [exJob]) \<and>
   code (fst (PATCH 9 ''j1'' exNoCompany [exJob])) = 400 \<and>
   snd (PATCH 9 ''j1'' exNoCompany [exJob]) = [exJob]"
proof -
  have ok: "requiredFieldsOk [exJob]"
    by (simp add: requiredFieldsOk_def exJob_def)
  note t = company_and_role_stay_nonempty
    [OF ok, where vd = exValidDate and now = 9 and req = "JsonObject exCreate"
       and i = "''j1''" and body = exCreate]
  note t' = company_and_role_stay_nonempty
    [OF ok, where vd = exValidDate and now = 9 and req = "JsonObject exPatch"
       and i = "''j1''" and body = exPatch]
  note t'' = company_and_role_stay_nonempty
    [OF ok, where vd = exValidDate and now = 9 and req = "JsonObject exNoCompany"
       and i = "''j1''" and body = exNoCompany]
  have e: "trim (String (orEmpty (exNoCompany ''company''))) = [] \<or>
           trim (String (orEmpty (exNoCompany ''role''))) = []"
    by (simp add: exNoCompany_def trim_def isWhiteSpace_def)
  have "exNoCompany ''company'' = Some (JStr ''   '') \<and>
        trim (String (orEmpty (Some (JStr ''   '')))) = []"
    by (simp add: exNoCompany_def trim_def isWhiteSpace_def)
  then have "\<exists>v. exNoCompany ''company'' = Some v \<and> trim (String (orEmpty (Some v))) = []"
    by (rule exI)
  then have e': "(\<exists>v. exNoCompany ''company'' = Some v \<and> trim (String (orEmpty (Some v))) = []) \<or>
      (\<exists>v. exNoCompany ''role'' = Some v \<and> trim (String (orEmpty (Some v))) = [])"
    by (rule disjI1)
  note 1 = t [THEN conjunct1]
  note 2 = t' [THEN conjunct2, THEN conjunct1]
  note 3 = t'' [THEN conjunct2, THEN conjunct2, THEN conjunct1, THEN mp, OF e]
  note 4 = t'' [THEN conjunct2, THEN conjunct2, THEN conjunct2, THEN mp, OF e']
  show ?thesis
    by (intro conjI) (fact ok 1 2 3 4 [THEN conjunct1] 4 [THEN conjunct2])+
qed

section \<open>List: malformed parameters\<close>

lemma normalizeStatus_param_unrecognized:
  "statusOfName (toUpperCase (trim u)) = None \<Longrightarrow> normalizeStatus (searchParam (Some u)) = None"
  by (simp add: searchParam_def normalizeStatus_def Let_def)

lemma normalizeStatus_param_absent: "normalizeStatus (searchParam None) = None"
  by (simp add: searchParam_def normalizeStatus_def trim_def toUpperCase_def)

lemma normalizeSort_fallback:
  "trim v \<notin> set [''updated_desc'', ''updated_asc'', ''created_desc'', ''created_asc'',
                   ''company_asc'', ''company_desc''] \<Longrightarrow>
   normalizeSort (searchParam (Some v)) = ''updated_desc''"
  by (simp add: searchParam_def normalizeSort_def Let_def)

lemma normalizeSort_default:
  "normalizeSort (searchParam (Some ''updated_desc'')) = ''updated_desc''"
  by (simp add: searchParam_def normalizeSort_def Let_def trim_def isWhiteSpace_def)

lemma orderByOf_default: "orderByOf ''updated_desc'' = (UpdatedAt, Desc)"
  by (simp add: orderByOf_def)

lemma newest_first:
  "sorted_wrt (\<lambda>a b. updatedAt b \<le> updatedAt a) (orderJobs (UpdatedAt, Desc) js)"
proof -
  have "sorted (map updatedAt (sort_key updatedAt js))"
    by (rule sorted_sort_key)
  then have "sorted_wrt (\<lambda>a b. updatedAt a \<le> updatedAt b) (sort_key updatedAt js)"
    by (simp add: sorted_map)
  then show ?thesis
    by (simp add: sorted_wrt_rev)
qed

text \<open>
  C7, as the spec states it: a status parameter that is not one of the five enum values
  is treated as absent, and a sort parameter outside the six allowed keys falls back to
  \<open>updatedAt\<close> descending. Both parameters are normalised before they are looked up.
  The sort parameter \<open>updated_asc\<close> after a space is none of the six keys, and the list
  comes oldest first; the status parameter \<open>applied\<close> is none of the five names, and the
  list is restricted to the applied jobs.
\<close>

theorem malformed_list_parameters_counterexample:
  "'' updated_asc'' \<notin> set [''updated_desc'', ''updated_asc'', ''created_desc'',
      ''created_asc'', ''company_asc'', ''company_desc''] \<and>
   listedJobs None None (Some '' updated_asc'') [exPatched, exJob] = [exJob, exPatched] \<and>
   listedJobs None None (Some ''updated_desc'') [exPatched, exJob] = [exPatched, exJob] \<and>
   updatedAt exJob < updatedAt exPatched \<and>
   ''applied'' \<notin> set (map statusName [SAVED, APPLIED, INTERVIEW, OFFER, REJECTED]) \<and>
   listedJobs None (Some ''applied'') None [exJob] = [] \<and>
   listedJobs None None None [exJob] = [exJob]"
  by (simp add: listedJobs_def GET_def searchParam_def prisma_job_findMany_def whereOf_def
        orderByOf_def matches_def exJob_def exPatched_def eval_defs)

text \<open>
  C7, amended: a status parameter whose trimmed upper-casing is not the name of an enum
  value is ignored, the request being answered as if the parameter were absent; a sort
  parameter that, trimmed of surrounding whitespace, is not one of the six allowed keys
  is answered as \<open>updated_desc\<close>, the list ordered by \<open>updatedAt\<close> descending; and
  every list request, whatever its parameters, answers 200 with a list of jobs.
\<close>

theorem malformed_list_parameters:
  "(statusOfName (toUpperCase (trim u)) = None \<longrightarrow>
      GET qp (Some u) srtp s = GET qp None srtp s) \<and>
   (trim v \<notin> set [''updated_desc'', ''updated_asc'', ''created_desc'', ''created_asc'',
                    ''company_asc'', ''company_desc''] \<longrightarrow>
      GET qp stp (Some v) s = GET qp stp (Some ''updated_desc'') s \<and>
      sorted_wrt (\<lambda>a b. updatedAt b \<le> updatedAt a) (listedJobs qp stp (Some v) s)) \<and>
   GET qp stp srtp s = (Response 200 (JobsBody (listedJobs qp stp srtp s)), s)"
proof (intro conjI impI)
  assume "statusOfName (toUpperCase (trim u)) = None"
  then show "GET qp (Some u) srtp s = GET qp None srtp s"
    by (simp add: GET_def normalizeStatus_param_unrecognized normalizeStatus_param_absent)
next
  assume a: "trim v \<notin> set [''updated_desc'', ''updated_asc'', ''created_desc'', ''created_asc'',
                    ''company_asc'', ''company_desc'']"
  show "GET qp stp (Some v) s = GET qp stp (Some ''updated_desc'') s"
    by (simp add: GET_def normalizeSort_fallback [OF a] normalizeSort_default)
  show "sorted_wrt (\<lambda>a b. updatedAt b \<le> updatedAt a) (listedJobs qp stp (Some v) s)"
    unfolding listedJobs_eq normalizeSort_fallback [OF a] orderByOf_default
    by (rule newest_first)
next
  show "GET qp stp srtp s = (Response 200 (JobsBody (listedJobs qp stp srtp s)), s)"
    by (rule GET_listedJobs)
qed

theorem malformed_list_parameters_witness:
  "GET None (Some ''bogus'') (Some ''newest'') [exJob, exPatched] =
     GET None None (Some ''newest'') [exJob, exPatched] \<and>
   GET None (Some ''bogus'') (Some ''newest'') [exJob, exPatched] =
     GET None (Some ''bogus'') (Some ''updated_desc'') [exJob, exPatched] \<and>
   sorted_wrt (\<lambda>a b. updatedAt b \<le> updatedAt a)
     (listedJobs None (Some ''bogus'') (Some ''newest'') [exJob, exPatched]) \<and>
   listedJobs None (Some ''bogus'') (Some ''newest'') [exJob, exPatched] = [exPatched, exJob]"
proof -
  note t = malformed_list_parameters
    [of "''bogus''" None "Some ''newest''" "[exJob, exPatched]" "''newest''" "Some ''bogus''"]
  have a: "statusOfName (toUpperCase (trim ''bogus'')) = None"
    by (simp add: eval_defs)
  have b: "trim ''newest'' \<notin> set [''updated_desc'', ''updated_asc'', ''created_desc'',
             ''created_asc'', ''company_asc'', ''company_desc'']"
    by (simp add: trim_def isWhiteSpace_def)
  note 1 = t [THEN conjunct1, THEN mp, OF a]
  note 2 = t [THEN conjunct2, THEN conjunct1, THEN mp, OF b]
  have 3: "listedJobs None (Some ''bogus'') (Some ''newest'') [exJob, exPatched] =
             [exPatched, exJob]"
    by (simp add: listedJobs_def GET_def searchParam_def prisma_job_findMany_def whereOf_def
          orderByOf_def matches_def exJob_def exPatched_def eval_defs)
  show ?thesis
    by (intro conjI) (fact 1 2 [THEN conjunct1] 2 [THEN conjunct2] 3)+
qed

section \<open>Status normalisation\<close>









section \<open>Optimistic stage move\<close>





lemma moveJob_NoResponse:
  "snd (moveJob i newStatus NoResponse tid c) = fst (moveJob i newStatus NoResponse tid c)"
  by (simp add: moveJob_def moveJob_request_def)






section \<open>Interview rate\<close>

















end
